theory Spec2Isabelle
  imports Complex_Main "HOL-Library.Sublist"
begin

section \<open>Python values\<close>

text \<open>
  The engine of \<^verbatim>\<open>m4_neo4j_accelerated_discovery.py\<close> is embedded as state-passing
  functions over a record of the fields of \<^verbatim>\<open>self\<close>. Python floats are idealised as
  reals, with one extra value for \<^verbatim>\<open>nan\<close> (which \<^verbatim>\<open>np.mean\<close> returns on an empty
  list). The scaling products \<^verbatim>\<open>n * 0.9\<close>, \<^verbatim>\<open>n * 1.25\<close>, \<^verbatim>\<open>n * 0.8\<close> and
  \<^verbatim>\<open>n * 1.1\<close> truncate to the same integer in double precision as over the reals for
  every batch size below \<open>2 ^ 50\<close>, and the composition fractions of a sequence of at most
  100 residues never come closer to a threshold than \<open>1 / 10000\<close>, so the idealisation
  does not change any branch taken. Calls of \<^verbatim>\<open>print\<close>, \<^verbatim>\<open>gc.collect\<close> and the
  wall-clock timers are left out, and so are the log lines of \<^verbatim>\<open>__init__\<close> and the
  banner lines at the start of \<^verbatim>\<open>run_continuous_discovery\<close>; every other call of
  \<^verbatim>\<open>logger\<close> and the call of \<^verbatim>\<open>time.sleep\<close> are recorded, in order, in the trace of
  the engine.
\<close>

datatype pyfloat = NaN | Finite real

datatype exn =
    ZeroDivisionError
  | AttributeError string
  | External string

definition py_int :: "real \<Rightarrow> int" where
  \<comment> \<open>\<^verbatim>\<open>int(x)\<close> on a float: truncation towards zero.\<close>
  "py_int x = (if 0 \<le> x then \<lfloor>x\<rfloor> else \<lceil>x\<rceil>)"

section \<open>Data model\<close>

record 'a virtues =
  justice :: 'a
  honesty :: 'a
  temperance :: 'a
  prudence :: 'a

record virtue_projection =
  strength :: real
  vp_phase :: real

record vqbit_state =
  residue_index :: nat
  amino_acid :: char
  phi :: real
  psi :: real
  amplitude_real :: real
  amplitude_imag :: real
  entanglement :: real
  coherence :: real
  collapsed :: bool
  phase :: real
  virtue_projections :: "virtue_projection virtues"
  entanglement_with_prev :: real

record quantum_analysis =
  qa_coherence :: pyfloat
  entanglement_entropy :: pyfloat
  superposition_fidelity :: pyfloat
  quantum_phase_correlation :: "pyfloat option"

record score_result =
  vqbit_score :: pyfloat
  energy :: pyfloat
  virtue_scores :: "pyfloat virtues"
  vqbit_states :: "vqbit_state list"
  sr_quantum_analysis :: quantum_analysis

record metal_analysis =
  ma_vqbit_score :: pyfloat
  energy_kcal_mol :: pyfloat
  ma_virtue_scores :: "pyfloat virtues"

record hardware_info =
  processed_on :: string
  metal_accelerated :: bool
  unified_memory :: bool
  vqbit_quantum_enabled :: bool

datatype genetics_context = GeneticsContext string

record discovery =
  d_sequence :: string
  validation_score :: real
  assessment :: string
  d_metal_analysis :: metal_analysis
  d_genetics_context :: genetics_context
  d_vqbit_states :: "vqbit_state list"
  d_quantum_analysis :: quantum_analysis
  d_hardware_info :: hardware_info
  neo4j_id :: "string option"

record m4_neo4j_config =
  batch_size :: int
  auto_scale :: bool
  max_batch_size :: int
  sequences_per_cycle :: int
  cfg_use_neo4j :: bool

record svmem =
  mem_total :: int
  mem_available :: int
  mem_percent :: real

record performance_metrics =
  sequences_processed :: int
  valid_discoveries_found :: int
  cycles_completed :: int

datatype log_level = DEBUG | INFO | WARNING | ERROR

datatype message =
    ReceivedSignal nat
  | ExtremeMemoryReducingSequences int int
  | BeastModeScalingUp int int
  | HighMemoryReducingBatchSize int int
  | LowMemoryIncreasingBatchSize int int
  | HighQuantumFidelity string pyfloat pyfloat
  | FailedToStoreDiscovery exn
  | ValidationStorageError nat exn
  | ErrorInDiscoveryCycle exn
  | ProgressUpdate performance_metrics
  | Neo4jStatistics string
  | Neo4jStatsError exn
  | ShutdownReport performance_metrics bool

datatype event =
    Logged log_level message
  | Sleep real
  | Neo4jClose

record engine =
  config :: m4_neo4j_config
  use_neo4j :: bool
  discovery_output_dir :: "string option"
  running :: bool
  metrics :: performance_metrics
  trace :: "event list"
  neo4j_stored :: "discovery list"
  files :: "discovery list"

text \<open>
  What the collaborators outside the file answer during one cycle: the operating system's
  memory query, the sequence generator, the random number generator, the genetics
  generators, the graph database and the file system, and the signals delivered while
  the cycle ran.
\<close>

record cycle_env =
  virtual_memory :: "exn + svmem"
  generate_realistic_sequence :: "nat \<Rightarrow> exn + string"
  random_draw :: "nat \<Rightarrow> real"
  generate_genetics_context :: "nat \<Rightarrow> exn + genetics_context"
  store_discovery :: "nat \<Rightarrow> exn + string"
  file_write :: "nat \<Rightarrow> nat \<Rightarrow> exn option"
  get_discovery_statistics :: "exn + string"
  signals :: "nat list"

definition logger :: "log_level \<Rightarrow> message \<Rightarrow> engine \<Rightarrow> engine" where
  "logger lvl msg st = st\<lparr>trace := trace st @ [Logged lvl msg]\<rparr>"

section \<open>The autoscaler\<close>

definition total_memory_gb :: "svmem \<Rightarrow> real" where
  "total_memory_gb m = real_of_int (mem_total m) / 1024 ^ 3"

definition available_memory_gb :: "svmem \<Rightarrow> real" where
  "available_memory_gb m = real_of_int (mem_available m) / 1024 ^ 3"

definition set_sequences_per_cycle :: "int \<Rightarrow> engine \<Rightarrow> engine" where
  "set_sequences_per_cycle n st = st\<lparr>config := (config st)\<lparr>sequences_per_cycle := n\<rparr>\<rparr>"

definition set_batch_size :: "int \<Rightarrow> engine \<Rightarrow> engine" where
  "set_batch_size n st = st\<lparr>config := (config st)\<lparr>batch_size := n\<rparr>\<rparr>"

definition adjust_resources :: "svmem \<Rightarrow> engine \<Rightarrow> engine" where
  \<comment> \<open>The body of \<^verbatim>\<open>_monitor_and_adjust_resources\<close> after the memory query.\<close>
  "adjust_resources memory_info st =
    (let spc = sequences_per_cycle (config st); bs = batch_size (config st) in
     if total_memory_gb memory_info \<ge> 100 then
       if mem_percent memory_info > 90 then
         (let new_sequences = max 256 (py_int (real_of_int spc * 0.9)) in
          if new_sequences \<noteq> spc
          then set_sequences_per_cycle new_sequences
                 (logger WARNING (ExtremeMemoryReducingSequences spc new_sequences) st)
          else st)
       else if mem_percent memory_info < 70 \<and> available_memory_gb memory_info > 40 then
         (let new_sequences = min 1024 (py_int (real_of_int spc * 1.25)) in
          if new_sequences \<noteq> spc
          then set_sequences_per_cycle new_sequences
                 (logger INFO (BeastModeScalingUp spc new_sequences) st)
          else st)
       else st
     else
       if mem_percent memory_info > 85 then
         (let new_batch_size = max 8 (py_int (real_of_int bs * 0.8)) in
          if new_batch_size \<noteq> bs
          then set_batch_size new_batch_size
                 (logger WARNING (HighMemoryReducingBatchSize bs new_batch_size) st)
          else st)
       else if mem_percent memory_info < 60 then
         (let new_batch_size = min 512 (py_int (real_of_int bs * 1.1)) in
          if new_batch_size \<noteq> bs
          then set_batch_size new_batch_size
                 (logger INFO (LowMemoryIncreasingBatchSize bs new_batch_size) st)
          else st)
       else st)"

definition monitor_and_adjust_resources :: "cycle_env \<Rightarrow> engine \<Rightarrow> exn + engine" where
  "monitor_and_adjust_resources env st =
    (if \<not> auto_scale (config st) then Inr st
     else case virtual_memory env of
       Inl e \<Rightarrow> Inl e
     | Inr memory_info \<Rightarrow> Inr (adjust_resources memory_info st))"

section \<open>Validation and storage\<close>

record metal_results =
  individual_results :: "score_result list"
  mr_batch_size :: nat

definition count_in :: "string \<Rightarrow> string \<Rightarrow> nat" where
  \<comment> \<open>\<^verbatim>\<open>sum(1 for aa in sequence if aa in letters)\<close>\<close>
  "count_in letters sequence = length (filter (\<lambda>aa. aa \<in> set letters) sequence)"

definition quality_score :: "string \<Rightarrow> real" where
  "quality_score sequence =
    (let hydrophobic_fraction = real (count_in ''ALFWMIV'' sequence) / real (length sequence);
         charged_fraction = real (count_in ''DEHKR'' sequence) / real (length sequence);
         polar_fraction = real (count_in ''NQSTCY'' sequence) / real (length sequence);
         score0 = 0.3;
         score1 = (if 0.05 \<le> hydrophobic_fraction \<and> hydrophobic_fraction \<le> 0.9
                   then score0 + 0.25 else score0);
         score2 = (if 0.02 \<le> charged_fraction \<and> charged_fraction \<le> 0.6
                   then score1 + 0.25 else score1);
         score3 = (if 0.02 \<le> polar_fraction \<and> polar_fraction \<le> 0.6
                   then score2 + 0.2 else score2)
     in score3)"

definition default_score_result :: score_result where
  \<comment> \<open>The values of the branch \<^verbatim>\<open># Fallback if no individual result\<close>; its
     \<^verbatim>\<open>quantum_analysis\<close> has no key \<^verbatim>\<open>quantum_phase_correlation\<close>.\<close>
  "default_score_result =
     \<lparr>vqbit_score = Finite 0.5, energy = Finite (- 300),
      virtue_scores = \<lparr>justice = Finite 0.0, honesty = Finite 0.0,
                       temperance = Finite 0.0, prudence = Finite 0.0\<rparr>,
      vqbit_states = [],
      sr_quantum_analysis =
        \<lparr>qa_coherence = Finite 0.0, entanglement_entropy = Finite 0.0,
         superposition_fidelity = Finite 0.0, quantum_phase_correlation = None\<rparr>\<rparr>"

definition vqbit_quantum_results :: "nat \<Rightarrow> score_result list \<Rightarrow> score_result" where
  "vqbit_quantum_results i results =
     (if i < length results then results ! i else default_score_result)"

definition pyfloat_gt :: "pyfloat \<Rightarrow> real \<Rightarrow> bool" where
  "pyfloat_gt x c = (case x of NaN \<Rightarrow> False | Finite r \<Rightarrow> r > c)"

definition save_discovery_to_file ::
    "cycle_env \<Rightarrow> nat \<Rightarrow> nat \<Rightarrow> discovery \<Rightarrow> engine \<Rightarrow> exn + engine" where
  \<comment> \<open>\<^verbatim>\<open>_save_discovery_to_file\<close>, called for item \<open>i\<close> the \<open>k\<close>-th time. Reading
     \<^verbatim>\<open>self.discovery_output_dir\<close> raises when the attribute was never set.\<close>
  "save_discovery_to_file env i k d st =
     (case discovery_output_dir st of
        None \<Rightarrow> Inl (AttributeError ''discovery_output_dir'')
      | Some dir \<Rightarrow>
          (case file_write env i k of
             Some e \<Rightarrow> Inl e
           | None \<Rightarrow> Inr (st\<lparr>files := files st @ [d]\<rparr>)))"

definition store_with_fallback ::
    "cycle_env \<Rightarrow> nat \<Rightarrow> discovery \<Rightarrow> engine \<Rightarrow> (exn + discovery) \<times> engine" where
  \<comment> \<open>The inner \<^verbatim>\<open>try\<close> of \<^verbatim>\<open>_ultra_fast_validate_and_store\<close> with its handler.\<close>
  "store_with_fallback env i d st =
     (let attempt =
        (if use_neo4j st then
           (case store_discovery env i of
              Inl e \<Rightarrow> Inl e
            | Inr discovery_id \<Rightarrow>
                (let st1 = st\<lparr>neo4j_stored := neo4j_stored st @ [d]\<rparr>;
                     qa = d_quantum_analysis d;
                     st2 = (if pyfloat_gt (superposition_fidelity qa) 0.8
                            then logger INFO (HighQuantumFidelity (take 8 discovery_id)
                                   (superposition_fidelity qa) (qa_coherence qa)) st1
                            else st1)
                 in Inr (d\<lparr>neo4j_id := Some discovery_id\<rparr>, st2)))
         else
           (case save_discovery_to_file env i 0 d st of
              Inl e \<Rightarrow> Inl e
            | Inr st1 \<Rightarrow> Inr (d, st1)))
      in case attempt of
           Inr (d1, st1) \<Rightarrow> (Inr d1, st1)
         | Inl storage_error \<Rightarrow>
             (let st1 = logger ERROR (FailedToStoreDiscovery storage_error) st in
              case save_discovery_to_file env i (if use_neo4j st then 0 else 1) d st1 of
                Inl e \<Rightarrow> (Inl e, st1)
              | Inr st2 \<Rightarrow> (Inr d, st2)))"

definition process_sequence ::
    "cycle_env \<Rightarrow> score_result list \<Rightarrow> nat \<Rightarrow> string \<Rightarrow> engine
       \<Rightarrow> discovery option \<times> engine" where
  \<comment> \<open>One iteration of the loop over \<^verbatim>\<open>enumerate(sequences)\<close>, with the outer handler.\<close>
  "process_sequence env results i sequence st =
     (if length sequence \<ge> 15 \<and> length sequence \<le> 100 then
        (let score = quality_score sequence;
             result = vqbit_quantum_results i results
         in case generate_genetics_context env i of
              Inl e \<Rightarrow> (None, logger DEBUG (ValidationStorageError i e) st)
            | Inr genetics \<Rightarrow>
                (let d = \<lparr>d_sequence = sequence,
                          validation_score = score,
                          assessment = ''VALID: Quantum-enhanced validation with genetics context'',
                          d_metal_analysis =
                            \<lparr>ma_vqbit_score = vqbit_score result,
                             energy_kcal_mol = energy result,
                             ma_virtue_scores = virtue_scores result\<rparr>,
                          d_genetics_context = genetics,
                          d_vqbit_states = vqbit_states result,
                          d_quantum_analysis = sr_quantum_analysis result,
                          d_hardware_info =
                            \<lparr>processed_on = ''M4_Mac_Pro_40_GPU'', metal_accelerated = True,
                             unified_memory = True, vqbit_quantum_enabled = True\<rparr>,
                          neo4j_id = None\<rparr>
                 in case store_with_fallback env i d st of
                      (Inl e, st1) \<Rightarrow> (None, logger DEBUG (ValidationStorageError i e) st1)
                    | (Inr d1, st1) \<Rightarrow> (Some d1, st1)))
      else (None, st))"

fun validate_loop ::
    "cycle_env \<Rightarrow> score_result list \<Rightarrow> nat \<Rightarrow> string list \<Rightarrow> engine
       \<Rightarrow> discovery list \<times> engine" where
  "validate_loop env results i [] st = ([], st)"
| "validate_loop env results i (sequence # rest) st =
     (case process_sequence env results i sequence st of
        (r, st1) \<Rightarrow>
          (case validate_loop env results (Suc i) rest st1 of
             (valid_discoveries, st2) \<Rightarrow>
               ((case r of None \<Rightarrow> [] | Some d \<Rightarrow> [d]) @ valid_discoveries, st2)))"

definition ultra_fast_validate_and_store ::
    "cycle_env \<Rightarrow> string list \<Rightarrow> metal_results \<Rightarrow> engine \<Rightarrow> discovery list \<times> engine" where
  "ultra_fast_validate_and_store env sequences mr st =
     validate_loop env (individual_results mr) 0 sequences st"


section \<open>The scorer\<close>

definition uniform :: "real \<Rightarrow> real \<Rightarrow> real \<Rightarrow> real" where
  \<comment> \<open>\<^verbatim>\<open>random.uniform(a, b)\<close> on the draw \<open>u\<close> of \<^verbatim>\<open>random.random()\<close>.\<close>
  "uniform a b u = a + (b - a) * u"

definition phi_base :: "char \<Rightarrow> real" where
  "phi_base aa =
     (case map_of
        [(CHR ''G'', - 60), (CHR ''P'', - 60), (CHR ''A'', - 60), (CHR ''V'', - 120),
         (CHR ''L'', - 120), (CHR ''I'', - 120), (CHR ''M'', - 60), (CHR ''F'', - 120),
         (CHR ''W'', - 120), (CHR ''Y'', - 120), (CHR ''S'', - 60), (CHR ''T'', - 60),
         (CHR ''C'', - 60), (CHR ''N'', - 60), (CHR ''Q'', - 60), (CHR ''H'', - 60),
         (CHR ''K'', - 120), (CHR ''R'', - 120), (CHR ''D'', - 60), (CHR ''E'', - 60)] aa of
        Some v \<Rightarrow> v
      | None \<Rightarrow> - 60)"

definition psi_base :: "char \<Rightarrow> real" where
  "psi_base aa =
     (case map_of
        [(CHR ''G'', 180), (CHR ''P'', 120), (CHR ''A'', - 45), (CHR ''V'', 120),
         (CHR ''L'', 120), (CHR ''I'', 120), (CHR ''M'', - 45), (CHR ''F'', 120),
         (CHR ''W'', 120), (CHR ''Y'', 120), (CHR ''S'', - 45), (CHR ''T'', - 45),
         (CHR ''C'', - 45), (CHR ''N'', - 45), (CHR ''Q'', - 45), (CHR ''H'', - 45),
         (CHR ''K'', 120), (CHR ''R'', 120), (CHR ''D'', - 45), (CHR ''E'', - 45)] aa of
        Some v \<Rightarrow> v
      | None \<Rightarrow> - 45)"

definition vqbit_state_for ::
    "(nat \<Rightarrow> real) \<Rightarrow> nat \<Rightarrow> nat \<Rightarrow> char \<Rightarrow> exn + (vqbit_state \<times> nat)" where
  \<comment> \<open>The body of the loop of \<^verbatim>\<open>_generate_vqbit_quantum_states\<close> for residue \<open>i\<close>; \<open>n\<close>
     counts the draws made so far. Dividing a float by the float zero raises.\<close>
  "vqbit_state_for rnd n i aa =
     (let ph = uniform 0 (2 * pi) (rnd n);
          re = cos ph * uniform 0.5 1.0 (rnd (n + 1));
          im = sin ph * uniform 0.5 1.0 (rnd (n + 2));
          magnitude = sqrt (re\<^sup>2 + im\<^sup>2)
      in if magnitude = 0 then Inl ZeroDivisionError
         else
           Inr (\<lparr>residue_index = i,
                 amino_acid = aa,
                 phi = phi_base aa + uniform (- 30) 30 (rnd (n + 6)),
                 psi = psi_base aa + uniform (- 30) 30 (rnd (n + 7)),
                 amplitude_real = re / magnitude,
                 amplitude_imag = im / magnitude,
                 entanglement = uniform 0.3 0.9 (rnd (n + 3)),
                 coherence = uniform 0.7 0.95 (rnd (n + 4)),
                 collapsed = (rnd (n + 5) < 0.15),
                 phase = ph,
                 virtue_projections =
                   \<lparr>justice = \<lparr>strength = uniform 0.1 0.5 (rnd (n + 8)),
                                vp_phase = uniform 0 (2 * pi) (rnd (n + 9))\<rparr>,
                    honesty = \<lparr>strength = uniform 0.1 0.5 (rnd (n + 10)),
                                vp_phase = uniform 0 (2 * pi) (rnd (n + 11))\<rparr>,
                    temperance = \<lparr>strength = uniform 0.1 0.4 (rnd (n + 12)),
                                   vp_phase = uniform 0 (2 * pi) (rnd (n + 13))\<rparr>,
                    prudence = \<lparr>strength = uniform 0.1 0.4 (rnd (n + 14)),
                                 vp_phase = uniform 0 (2 * pi) (rnd (n + 15))\<rparr>\<rparr>,
                 entanglement_with_prev =
                   (if i > 0 then uniform 0.4 0.8 (rnd (n + 16)) else 0.0)\<rparr>,
                if i > 0 then n + 17 else n + 16))"

fun vqbit_states_from ::
    "(nat \<Rightarrow> real) \<Rightarrow> nat \<Rightarrow> nat \<Rightarrow> string \<Rightarrow> exn + (vqbit_state list \<times> nat)" where
  "vqbit_states_from rnd n i [] = Inr ([], n)"
| "vqbit_states_from rnd n i (aa # rest) =
     (case vqbit_state_for rnd n i aa of
        Inl e \<Rightarrow> Inl e
      | Inr (vq, n1) \<Rightarrow>
          (case vqbit_states_from rnd n1 (Suc i) rest of
             Inl e \<Rightarrow> Inl e
           | Inr (vqs, n2) \<Rightarrow> Inr (vq # vqs, n2)))"

definition generate_vqbit_quantum_states ::
    "(nat \<Rightarrow> real) \<Rightarrow> nat \<Rightarrow> string \<Rightarrow> exn + (vqbit_state list \<times> nat)" where
  "generate_vqbit_quantum_states rnd n sequence = vqbit_states_from rnd n 0 sequence"

definition np_mean :: "real list \<Rightarrow> pyfloat" where
  \<comment> \<open>\<^verbatim>\<open>np.mean\<close> of an empty list is \<^verbatim>\<open>nan\<close>, with a warning and no exception.\<close>
  "np_mean xs = (if xs = [] then NaN else Finite (sum_list xs / real (length xs)))"

definition pf_map :: "(real \<Rightarrow> real) \<Rightarrow> pyfloat \<Rightarrow> pyfloat" where
  "pf_map f x = (case x of NaN \<Rightarrow> NaN | Finite r \<Rightarrow> Finite (f r))"

definition pf_add :: "pyfloat \<Rightarrow> pyfloat \<Rightarrow> pyfloat" where
  "pf_add x y =
     (case x of NaN \<Rightarrow> NaN | Finite a \<Rightarrow> (case y of NaN \<Rightarrow> NaN | Finite b \<Rightarrow> Finite (a + b)))"

definition np_log :: "pyfloat \<Rightarrow> pyfloat" where
  \<comment> \<open>\<^verbatim>\<open>np.log\<close>; its result at zero and below (\<^verbatim>\<open>-inf\<close>, \<^verbatim>\<open>nan\<close>) is not a number.\<close>
  "np_log x = (case x of NaN \<Rightarrow> NaN | Finite r \<Rightarrow> (if r > 0 then Finite (ln r) else NaN))"

definition pf_mul :: "pyfloat \<Rightarrow> pyfloat \<Rightarrow> pyfloat" where
  "pf_mul x y =
     (case x of NaN \<Rightarrow> NaN | Finite a \<Rightarrow> (case y of NaN \<Rightarrow> NaN | Finite b \<Rightarrow> Finite (a * b)))"

definition analyse_sequence ::
    "(nat \<Rightarrow> real) \<Rightarrow> nat \<Rightarrow> string \<Rightarrow> exn + (score_result \<times> nat)" where
  \<comment> \<open>The body of the loop of \<^verbatim>\<open>_simplified_metal_analysis\<close> for one sequence.\<close>
  "analyse_sequence rnd n sequence =
     (case generate_vqbit_quantum_states rnd n sequence of
        Inl e \<Rightarrow> Inl e
      | Inr (states, n1) \<Rightarrow>
          (let avg_entanglement = np_mean (map entanglement states);
               avg_coherence = np_mean (map coherence states);
               collapsed_count = length (filter collapsed states);
               score = pf_map (\<lambda>x. x / 2.0) (pf_add avg_entanglement avg_coherence);
               base_energy = - 300.0;
               quantum_energy_modifier = pf_map (\<lambda>x. (x - 0.5) * 50) avg_entanglement;
               en = pf_map (\<lambda>x. base_energy + x + uniform (- 50) 50 (rnd n1))
                      quantum_energy_modifier;
               virtues =
                 \<lparr>justice = pf_map (\<lambda>x. x * uniform 0.5 1.5 (rnd (n1 + 1)) - 0.25)
                              (np_mean (map (\<lambda>vq. strength (justice (virtue_projections vq))) states)),
                  honesty = pf_map (\<lambda>x. x * uniform 0.5 1.5 (rnd (n1 + 2)) - 0.25)
                              (np_mean (map (\<lambda>vq. strength (honesty (virtue_projections vq))) states)),
                  temperance = pf_map (\<lambda>x. x * uniform 0.5 1.5 (rnd (n1 + 3)) - 0.2)
                              (np_mean (map (\<lambda>vq. strength (temperance (virtue_projections vq))) states)),
                  prudence = pf_map (\<lambda>x. x * uniform 0.5 1.5 (rnd (n1 + 4)) - 0.2)
                              (np_mean (map (\<lambda>vq. strength (prudence (virtue_projections vq))) states))\<rparr>;
               entropy = pf_mul (pf_map uminus avg_entanglement)
                           (np_log (pf_map (\<lambda>x. x + 1 / 10 ^ 10) avg_entanglement))
           in if length states = 0 then Inl ZeroDivisionError
              else
                Inr (\<lparr>vqbit_score = score,
                      energy = en,
                      virtue_scores = virtues,
                      vqbit_states = states,
                      sr_quantum_analysis =
                        \<lparr>qa_coherence = avg_coherence,
                         entanglement_entropy = entropy,
                         superposition_fidelity =
                           Finite (real (length states - collapsed_count) / real (length states)),
                         quantum_phase_correlation = Some (np_mean (map phase states))\<rparr>\<rparr>,
                     n1 + 5)))"

fun analyse_all ::
    "(nat \<Rightarrow> real) \<Rightarrow> nat \<Rightarrow> string list \<Rightarrow> exn + score_result list" where
  "analyse_all rnd n [] = Inr []"
| "analyse_all rnd n (sequence # rest) =
     (case analyse_sequence rnd n sequence of
        Inl e \<Rightarrow> Inl e
      | Inr (r, n1) \<Rightarrow>
          (case analyse_all rnd n1 rest of
             Inl e \<Rightarrow> Inl e
           | Inr rs \<Rightarrow> Inr (r # rs)))"

definition simplified_metal_analysis :: "(nat \<Rightarrow> real) \<Rightarrow> string list \<Rightarrow> exn + metal_results" where
  "simplified_metal_analysis rnd sequences =
     (case analyse_all rnd 0 sequences of
        Inl e \<Rightarrow> Inl e
      | Inr results \<Rightarrow>
          Inr \<lparr>individual_results = results, mr_batch_size = length sequences\<rparr>)"

definition massive_batch_analysis :: "(nat \<Rightarrow> real) \<Rightarrow> string list \<Rightarrow> exn + metal_results" where
  "massive_batch_analysis rnd sequences = simplified_metal_analysis rnd sequences"


section \<open>The cycle loop\<close>













section \<open>Observations on the trace\<close>






section \<open>Construction\<close>

definition default_config :: m4_neo4j_config where
  \<comment> \<open>The field defaults of \<^verbatim>\<open>M4Neo4jConfig\<close>.\<close>
  "default_config =
     \<lparr>batch_size = 512, auto_scale = True, max_batch_size = 64,
      sequences_per_cycle = 32, cfg_use_neo4j = True\<rparr>"

definition engine_init :: "m4_neo4j_config \<Rightarrow> bool \<Rightarrow> engine" where
  \<comment> \<open>\<^verbatim>\<open>M4Neo4jDiscoveryEngine.__init__\<close>; \<open>neo4j_connects\<close> says that the driver is
     installed and the constructor of the graph engine did not raise. The fallback
     directory is created only when the graph database is not in use.\<close>
  "engine_init cfg neo4j_connects =
     (let un = (cfg_use_neo4j cfg \<and> neo4j_connects) in
      \<lparr>config = cfg, use_neo4j = un,
       discovery_output_dir = (if \<not> un then Some ''m4_continuous_discoveries'' else None),
       running = True,
       metrics = \<lparr>sequences_processed = 0, valid_discoveries_found = 0, cycles_completed = 0\<rparr>,
       trace = [], neo4j_stored = [], files = []\<rparr>)"

section \<open>Sample inputs\<close>

text \<open>Concrete inputs for the worked examples: a 128 GiB machine and well-behaved collaborators.\<close>

definition m4_memory :: "int \<Rightarrow> real \<Rightarrow> svmem" where
  "m4_memory available_gib pct =
     \<lparr>mem_total = 128 * 1024 ^ 3, mem_available = available_gib * 1024 ^ 3, mem_percent = pct\<rparr>"

definition example_env :: cycle_env where
  "example_env =
     \<lparr>virtual_memory =
        Inr \<lparr>mem_total = 128 * 1024 ^ 3, mem_available = 64 * 1024 ^ 3, mem_percent = 50\<rparr>,
      generate_realistic_sequence = (\<lambda>i. Inr ''ACDEFGHIKLMNPQRSTVWY''),
      random_draw = (\<lambda>n. 1 / 2),
      generate_genetics_context = (\<lambda>i. Inr (GeneticsContext [])),
      store_discovery = (\<lambda>i. Inr ''4f2a''),
      file_write = (\<lambda>i k. None),
      get_discovery_statistics = Inr [],
      signals = []\<rparr>"

definition example_sequence :: string where
  "example_sequence = ''ACDEFGHIKLMNPQRSTVWY''"

definition example_result :: score_result where
  "example_result =
     \<lparr>vqbit_score = Finite 0.7, energy = Finite (- 310),
      virtue_scores = \<lparr>justice = Finite 0.1, honesty = Finite 0.1,
                       temperance = Finite 0.1, prudence = Finite 0.1\<rparr>,
      vqbit_states = [],
      sr_quantum_analysis =
        \<lparr>qa_coherence = Finite 0.8, entanglement_entropy = Finite 0.3,
         superposition_fidelity = Finite 0.5, quantum_phase_correlation = Some (Finite 3.0)\<rparr>\<rparr>"


section \<open>Properties of the autoscaler\<close>

lemma py_int_125: "0 \<le> s \<Longrightarrow> py_int (real_of_int s * 1.25) = (5 * s) div 4"
proof -
  assume "0 \<le> s"
  have "real_of_int s * 1.25 = real_of_int (5 * s) / real_of_int 4" by simp
  then have "\<lfloor>real_of_int s * 1.25\<rfloor> = (5 * s) div 4"
    by (metis floor_divide_of_int_eq)
  with \<open>0 \<le> s\<close> show ?thesis by (simp add: py_int_def)
qed

lemma adjust_resources_scale_up:
  assumes "total_memory_gb m \<ge> 100" "mem_percent m < 70" "available_memory_gb m > 40"
  shows "sequences_per_cycle (config (adjust_resources m st)) =
           min 1024 (py_int (real_of_int (sequences_per_cycle (config st)) * 1.25))"
  using assms
  by (simp add: adjust_resources_def Let_def set_sequences_per_cycle_def logger_def)

text \<open>
  Claim C2. The claim is that \<open>min_items \<le> sequences_per_cycle \<le> max_items\<close> holds before
  and after every decision, starting from the initial configuration. The autoscaler
  clamps the setting into 256..1024 and the configuration names 64 as the largest batch,
  but the initial setting is 32: it lies below the floor before the first decision, it is
  still below the floor after a decision under slack (40), it exceeds the configured
  maximum after further decisions under slack (62 becomes 77), and a decision under
  pressure moves it to 256.
\<close>

theorem default_setting_outside_bounds:
  "sequences_per_cycle (config (engine_init default_config True)) = 32
   \<and> max_batch_size (config (engine_init default_config True)) = 64
   \<and> sequences_per_cycle (config (adjust_resources (m4_memory 64 50)
        (engine_init default_config True))) = 40
   \<and> sequences_per_cycle (config (adjust_resources (m4_memory 64 50)
        (set_sequences_per_cycle 62 (engine_init default_config True)))) = 77
   \<and> sequences_per_cycle (config (adjust_resources (m4_memory 4 95)
        (engine_init default_config True))) = 256"
  by (simp add: adjust_resources_def Let_def set_sequences_per_cycle_def logger_def
        engine_init_def default_config_def m4_memory_def total_memory_gb_def
        available_memory_gb_def py_int_def)

text \<open>
  Claim C3. The claim is that under memory pressure the setting strictly decreases unless
  it is already at the floor. On the default configuration, on a machine of 128 GiB at
  95 percent memory use, the decision raises the setting from 32 to 256 and logs the
  warning that the sequences are being reduced from 32 to 256.
\<close>

theorem pressure_raises_default_setting:
  "monitor_and_adjust_resources
      (example_env\<lparr>virtual_memory := Inr (m4_memory 4 95)\<rparr>)
      (engine_init default_config True)
    = Inr ((set_sequences_per_cycle 256 (engine_init default_config True))
             \<lparr>trace := [Logged WARNING (ExtremeMemoryReducingSequences 32 256)]\<rparr>)"
  by (simp add: monitor_and_adjust_resources_def adjust_resources_def Let_def
        set_sequences_per_cycle_def logger_def example_env_def
        engine_init_def default_config_def m4_memory_def total_memory_gb_def
        available_memory_gb_def py_int_def)

text \<open>
  Claim C4, as the code has it. When autoscaling is on, the machine has at least 100 GiB,
  memory use is below 70 percent and more than 40 GiB are available, the new setting is
  \<open>min 1024 (floor (sequences_per_cycle * 1.25))\<close>: the product is rounded down, not up.
  The setting strictly increases from 4 up to 1023, and never leaves the range below
  1024 upwards.
\<close>

theorem scale_up_rounds_down:
  assumes vm: "virtual_memory env = Inr m"
    and auto: "auto_scale (config st)"
    and m4: "total_memory_gb m \<ge> 100"
    and slack: "mem_percent m < 70" "available_memory_gb m > 40"
    and nonneg: "0 \<le> sequences_per_cycle (config st)"
  shows "\<exists>st'. monitor_and_adjust_resources env st = Inr st'
           \<and> sequences_per_cycle (config st')
               = min 1024 \<lfloor>real_of_int (sequences_per_cycle (config st)) * 1.25\<rfloor>
           \<and> (4 \<le> sequences_per_cycle (config st) \<and> sequences_per_cycle (config st) < 1024
                \<longrightarrow> sequences_per_cycle (config st) < sequences_per_cycle (config st'))
           \<and> (sequences_per_cycle (config st) \<le> 1024
                \<longrightarrow> sequences_per_cycle (config st) \<le> sequences_per_cycle (config st')
                    \<and> sequences_per_cycle (config st') \<le> 1024)"
proof -
  let ?s = "sequences_per_cycle (config st)"
  let ?st' = "adjust_resources m st"
  have run: "monitor_and_adjust_resources env st = Inr ?st'"
    by (simp add: monitor_and_adjust_resources_def vm auto)
  have val: "sequences_per_cycle (config ?st') = min 1024 ((5 * ?s) div 4)"
    using adjust_resources_scale_up [OF m4 slack] py_int_125 [OF nonneg] by simp
  have fl: "\<lfloor>real_of_int ?s * 1.25\<rfloor> = (5 * ?s) div 4"
    using py_int_125 [OF nonneg] nonneg by (simp add: py_int_def)
  have up: "4 \<le> ?s \<Longrightarrow> ?s < (5 * ?s) div 4" by presburger
  have mono: "?s \<le> (5 * ?s) div 4" using nonneg by presburger
  show ?thesis
    using run val fl up mono by (intro exI [of _ ?st']) auto
qed

theorem scale_up_rounds_down_witness:
  "\<exists>st'. monitor_and_adjust_resources example_env
           (set_sequences_per_cycle 33 (engine_init default_config True)) = Inr st'
         \<and> sequences_per_cycle (config st') = 41"
proof -
  let ?st = "set_sequences_per_cycle 33 (engine_init default_config True)"
  have vm: "virtual_memory example_env = Inr (m4_memory 64 50)"
    by (simp add: example_env_def m4_memory_def)
  have s: "sequences_per_cycle (config ?st) = 33"
    by (simp add: set_sequences_per_cycle_def)
  have a: "auto_scale (config ?st)"
    by (simp add: set_sequences_per_cycle_def engine_init_def default_config_def)
  have t: "total_memory_gb (m4_memory 64 50) \<ge> 100"
    by (simp add: m4_memory_def total_memory_gb_def)
  have p: "mem_percent (m4_memory 64 50) < 70"
    by (simp add: m4_memory_def)
  have v: "available_memory_gb (m4_memory 64 50) > 40"
    by (simp add: m4_memory_def available_memory_gb_def)
  have n: "0 \<le> sequences_per_cycle (config ?st)"
    by (simp add: s)
  from scale_up_rounds_down [OF vm a t p v n] obtain st' where
    r: "monitor_and_adjust_resources example_env ?st = Inr st'"
    and e: "sequences_per_cycle (config st')
         = min 1024 \<lfloor>real_of_int (sequences_per_cycle (config ?st)) * 1.25\<rfloor>"
    by blast
  have "min 1024 \<lfloor>real_of_int 33 * 1.25\<rfloor> = (41::int)" by simp
  with e s have "sequences_per_cycle (config st') = 41" by simp
  with r show ?thesis by blast
qed

text \<open>
  Claim C4 as stated, with the ceiling, fails at the setting 33: the code yields 41 and
  the ceiling of 41.25 is 42.
\<close>

theorem scale_up_ceiling_counterexample:
  "\<not> (sequences_per_cycle (config (adjust_resources (m4_memory 64 50)
          (set_sequences_per_cycle 33 (engine_init default_config True))))
        = min 1024 \<lceil>real_of_int 33 * 1.25\<rceil>)"
  by (simp add: adjust_resources_def Let_def set_sequences_per_cycle_def logger_def
        engine_init_def default_config_def m4_memory_def total_memory_gb_def
        available_memory_gb_def py_int_def)

text \<open>
  Claim C8. Whenever memory use lies between the two thresholds of the branch taken (or
  the available memory does not exceed the floor of the scale-up branch), or the value
  computed in a branch equals the current one, the decision returns the engine as it
  was: the configuration is unchanged and nothing is appended to the trace.
\<close>

theorem autoscaler_unchanged_without_log:
  assumes vm: "virtual_memory env = Inr m"
    and quiet:
      "(total_memory_gb m \<ge> 100 \<and> 70 \<le> mem_percent m \<and> mem_percent m \<le> 90)
       \<or> (total_memory_gb m \<ge> 100 \<and> mem_percent m \<le> 90 \<and> available_memory_gb m \<le> 40)
       \<or> (total_memory_gb m < 100 \<and> 60 \<le> mem_percent m \<and> mem_percent m \<le> 85)
       \<or> (total_memory_gb m \<ge> 100 \<and> mem_percent m > 90
            \<and> max 256 (py_int (real_of_int (sequences_per_cycle (config st)) * 0.9))
                = sequences_per_cycle (config st))
       \<or> (total_memory_gb m \<ge> 100 \<and> mem_percent m < 70 \<and> available_memory_gb m > 40
            \<and> min 1024 (py_int (real_of_int (sequences_per_cycle (config st)) * 1.25))
                = sequences_per_cycle (config st))
       \<or> (total_memory_gb m < 100 \<and> mem_percent m > 85
            \<and> max 8 (py_int (real_of_int (batch_size (config st)) * 0.8))
                = batch_size (config st))
       \<or> (total_memory_gb m < 100 \<and> mem_percent m < 60
            \<and> min 512 (py_int (real_of_int (batch_size (config st)) * 1.1))
                = batch_size (config st))"
  shows "monitor_and_adjust_resources env st = Inr st"
proof -
  have "adjust_resources m st = st"
    using quiet
  proof (elim disjE conjE)
    assume "total_memory_gb m \<ge> 100" "70 \<le> mem_percent m" "mem_percent m \<le> 90"
    then show ?thesis by (simp add: adjust_resources_def)
  next
    assume "total_memory_gb m \<ge> 100" "mem_percent m \<le> 90" "available_memory_gb m \<le> 40"
    then show ?thesis by (simp add: adjust_resources_def)
  next
    assume "total_memory_gb m < 100" "60 \<le> mem_percent m" "mem_percent m \<le> 85"
    then show ?thesis by (simp add: adjust_resources_def)
  next
    assume "total_memory_gb m \<ge> 100" "mem_percent m > 90"
      "max 256 (py_int (real_of_int (sequences_per_cycle (config st)) * 0.9))
         = sequences_per_cycle (config st)"
    then show ?thesis by (simp add: adjust_resources_def Let_def)
  next
    assume "total_memory_gb m \<ge> 100" "mem_percent m < 70" "available_memory_gb m > 40"
      "min 1024 (py_int (real_of_int (sequences_per_cycle (config st)) * 1.25))
         = sequences_per_cycle (config st)"
    then show ?thesis by (simp add: adjust_resources_def Let_def)
  next
    assume "total_memory_gb m < 100" "mem_percent m > 85"
      "max 8 (py_int (real_of_int (batch_size (config st)) * 0.8)) = batch_size (config st)"
    then show ?thesis by (simp add: adjust_resources_def Let_def)
  next
    assume "total_memory_gb m < 100" "mem_percent m < 60"
      "min 512 (py_int (real_of_int (batch_size (config st)) * 1.1)) = batch_size (config st)"
    then show ?thesis by (simp add: adjust_resources_def Let_def)
  qed
  then show ?thesis
    by (simp add: monitor_and_adjust_resources_def vm)
qed

theorem autoscaler_unchanged_without_log_witness:
  "monitor_and_adjust_resources
      (example_env\<lparr>virtual_memory := Inr (m4_memory 20 80)\<rparr>)
      (engine_init default_config True)
    = Inr (engine_init default_config True)
   \<and> monitor_and_adjust_resources
      (example_env\<lparr>virtual_memory := Inr (m4_memory 4 95)\<rparr>)
      (set_sequences_per_cycle 256 (engine_init default_config True))
    = Inr (set_sequences_per_cycle 256 (engine_init default_config True))"
proof
  show "monitor_and_adjust_resources
      (example_env\<lparr>virtual_memory := Inr (m4_memory 20 80)\<rparr>)
      (engine_init default_config True)
    = Inr (engine_init default_config True)"
    by (rule autoscaler_unchanged_without_log [where m = "m4_memory 20 80"])
       (simp_all add: example_env_def m4_memory_def total_memory_gb_def)
  show "monitor_and_adjust_resources
      (example_env\<lparr>virtual_memory := Inr (m4_memory 4 95)\<rparr>)
      (set_sequences_per_cycle 256 (engine_init default_config True))
    = Inr (set_sequences_per_cycle 256 (engine_init default_config True))"
    by (rule autoscaler_unchanged_without_log [where m = "m4_memory 4 95"])
       (simp_all add: example_env_def m4_memory_def total_memory_gb_def
          set_sequences_per_cycle_def engine_init_def default_config_def py_int_def)
qed

section \<open>Properties of validation and storage\<close>

lemma quality_score_bounds: "0.3 \<le> quality_score s \<and> quality_score s \<le> 1.0"
  by (simp add: quality_score_def Let_def)

lemma store_with_fallback_sequence:
  "store_with_fallback env i d st = (Inr d1, st1) \<Longrightarrow>
     d_sequence d1 = d_sequence d \<and> validation_score d1 = validation_score d"
  by (auto simp add: store_with_fallback_def Let_def split: sum.splits if_splits prod.splits)

lemma process_sequence_Some:
  assumes "process_sequence env results i s st = (Some d, st1)"
  shows "d_sequence d = s \<and> 15 \<le> length s \<and> length s \<le> 100
         \<and> validation_score d = quality_score s"
  using assms
  by (auto simp add: process_sequence_def Let_def
        split: if_splits sum.splits prod.splits dest!: store_with_fallback_sequence)

lemma validate_loop_records:
  "(\<forall>d \<in> set (fst (validate_loop env results i sequences st)).
       15 \<le> length (d_sequence d) \<and> length (d_sequence d) \<le> 100
       \<and> 0.3 \<le> validation_score d \<and> validation_score d \<le> 1.0)
   \<and> subseq (map d_sequence (fst (validate_loop env results i sequences st))) sequences"
proof (induction sequences arbitrary: i st)
  case Nil
  show ?case by simp
next
  case (Cons s rest)
  obtain r st1 where p: "process_sequence env results i s st = (r, st1)"
    by (cases "process_sequence env results i s st")
  obtain ds st2 where l: "validate_loop env results (Suc i) rest st1 = (ds, st2)"
    by (cases "validate_loop env results (Suc i) rest st1")
  from Cons.IH [of "Suc i" st1] l
  have ih: "\<forall>d \<in> set ds. 15 \<le> length (d_sequence d) \<and> length (d_sequence d) \<le> 100
              \<and> 0.3 \<le> validation_score d \<and> validation_score d \<le> 1.0"
    and sub: "subseq (map d_sequence ds) rest"
    by simp_all
  show ?case
  proof (cases r)
    case None
    with p l ih sub show ?thesis by (simp add: list_emb_Cons)
  next
    case (Some d)
    with p have "d_sequence d = s" "15 \<le> length s" "length s \<le> 100"
      "validation_score d = quality_score s"
      using process_sequence_Some by blast+
    with Some p l ih sub quality_score_bounds [of s] show ?thesis by simp
  qed
qed

lemma example_run:
  "map (\<lambda>d. (d_sequence d, validation_score d, ma_vqbit_score (d_metal_analysis d), neo4j_id d))
     (fst (ultra_fast_validate_and_store example_env
        [''ACD'', example_sequence, example_sequence]
        \<lparr>individual_results = [example_result, example_result], mr_batch_size = 3\<rparr>
        (engine_init default_config True)))
   = [(example_sequence, 1, Finite 0.7, Some ''4f2a''), (example_sequence, 1, Finite 0.5, Some ''4f2a'')]"
  by (simp add: ultra_fast_validate_and_store_def process_sequence_def store_with_fallback_def
        example_env_def engine_init_def default_config_def example_sequence_def
        example_result_def vqbit_quantum_results_def default_score_result_def
        quality_score_def count_in_def pyfloat_gt_def logger_def Let_def)

text \<open>
  Claim C10. Every record returned by \<^verbatim>\<open>_ultra_fast_validate_and_store\<close> has a sequence
  of 15 to 100 residues and a validation score in the closed interval from 0.3 to 1.0,
  and the sequences of the returned records are a subsequence of the input batch: the
  records keep the order of their items.
\<close>

theorem validated_records_in_range_and_order:
  "(\<forall>d \<in> set (fst (ultra_fast_validate_and_store env sequences mr st)).
       15 \<le> length (d_sequence d) \<and> length (d_sequence d) \<le> 100
       \<and> 0.3 \<le> validation_score d \<and> validation_score d \<le> 1.0)
   \<and> subseq (map d_sequence (fst (ultra_fast_validate_and_store env sequences mr st)))
        sequences"
  unfolding ultra_fast_validate_and_store_def by (rule validate_loop_records)

theorem validated_records_in_range_and_order_witness:
  "fst (ultra_fast_validate_and_store example_env
          [''ACD'', example_sequence, example_sequence]
          \<lparr>individual_results = [example_result, example_result], mr_batch_size = 3\<rparr>
          (engine_init default_config True)) \<noteq> []
   \<and> list_all (\<lambda>d. 15 \<le> length (d_sequence d) \<and> length (d_sequence d) \<le> 100
                    \<and> 0.3 \<le> validation_score d \<and> validation_score d \<le> 1.0)
        (fst (ultra_fast_validate_and_store example_env
          [''ACD'', example_sequence, example_sequence]
          \<lparr>individual_results = [example_result, example_result], mr_batch_size = 3\<rparr>
          (engine_init default_config True)))
   \<and> subseq (map d_sequence (fst (ultra_fast_validate_and_store example_env
          [''ACD'', example_sequence, example_sequence]
          \<lparr>individual_results = [example_result, example_result], mr_batch_size = 3\<rparr>
          (engine_init default_config True))))
        [''ACD'', example_sequence, example_sequence]"
proof -
  let ?run = "ultra_fast_validate_and_store example_env
          [''ACD'', example_sequence, example_sequence]
          \<lparr>individual_results = [example_result, example_result], mr_batch_size = 3\<rparr>
          (engine_init default_config True)"
  have "fst ?run \<noteq> []"
    using example_run by auto
  with validated_records_in_range_and_order [of example_env
          "[''ACD'', example_sequence, example_sequence]"
          "\<lparr>individual_results = [example_result, example_result], mr_batch_size = 3\<rparr>"
          "engine_init default_config True"]
  show ?thesis
    by (simp only: list_all_iff) blast
qed

lemma vqbit_quantum_results_pad:
  "vqbit_quantum_results i (results @ replicate n default_score_result)
     = vqbit_quantum_results i results"
  by (simp add: vqbit_quantum_results_def nth_append)

lemma process_sequence_pad:
  "process_sequence env (results @ replicate n default_score_result) i s st
     = process_sequence env results i s st"
  by (simp add: process_sequence_def vqbit_quantum_results_pad)

lemma validate_loop_pad:
  "validate_loop env (results @ replicate n default_score_result) i sequences st
     = validate_loop env results i sequences st"
  by (induction sequences arbitrary: i st) (simp_all add: process_sequence_pad)

text \<open>
  Claim C7. For an index past the end of the scorer's result list the step takes the
  default result (score 0.5, energy -300, all virtue scores 0, no vQbit states), and the
  whole batch is processed exactly as if the scorer had returned that default for every
  missing item. The step has no exceptional exit: every exception of an item is caught
  inside the loop.
\<close>

theorem missing_score_results_default:
  assumes "length (individual_results mr) \<le> i"
  shows "vqbit_quantum_results i (individual_results mr)
           = \<lparr>vqbit_score = Finite 0.5, energy = Finite (- 300),
              virtue_scores = \<lparr>justice = Finite 0.0, honesty = Finite 0.0,
                               temperance = Finite 0.0, prudence = Finite 0.0\<rparr>,
              vqbit_states = [],
              sr_quantum_analysis =
                \<lparr>qa_coherence = Finite 0.0, entanglement_entropy = Finite 0.0,
                 superposition_fidelity = Finite 0.0, quantum_phase_correlation = None\<rparr>\<rparr>
         \<and> ultra_fast_validate_and_store env sequences mr st
           = ultra_fast_validate_and_store env sequences
               (mr\<lparr>individual_results := individual_results mr
                     @ replicate (length sequences - length (individual_results mr))
                         default_score_result\<rparr>) st"
  using assms
proof -
  have "vqbit_quantum_results i (individual_results mr) = default_score_result"
    using assms by (simp add: vqbit_quantum_results_def)
  moreover have "ultra_fast_validate_and_store env sequences mr st
           = ultra_fast_validate_and_store env sequences
               (mr\<lparr>individual_results := individual_results mr
                     @ replicate (length sequences - length (individual_results mr))
                         default_score_result\<rparr>) st"
    by (simp add: ultra_fast_validate_and_store_def validate_loop_pad)
  ultimately show ?thesis
    by (simp add: default_score_result_def)
qed

theorem missing_score_results_default_witness:
  "vqbit_quantum_results 2 [example_result, example_result]
     = \<lparr>vqbit_score = Finite 0.5, energy = Finite (- 300),
        virtue_scores = \<lparr>justice = Finite 0.0, honesty = Finite 0.0,
                         temperance = Finite 0.0, prudence = Finite 0.0\<rparr>,
        vqbit_states = [],
        sr_quantum_analysis =
          \<lparr>qa_coherence = Finite 0.0, entanglement_entropy = Finite 0.0,
           superposition_fidelity = Finite 0.0, quantum_phase_correlation = None\<rparr>\<rparr>
   \<and> map (\<lambda>d. ma_vqbit_score (d_metal_analysis d))
        (fst (ultra_fast_validate_and_store example_env
          [''ACD'', example_sequence, example_sequence]
          \<lparr>individual_results = [example_result, example_result], mr_batch_size = 3\<rparr>
          (engine_init default_config True)))
      = [Finite 0.7, Finite 0.5]"
proof -
  have "length (individual_results
          \<lparr>individual_results = [example_result, example_result], mr_batch_size = 3\<rparr>) \<le> 2"
    by simp
  from missing_score_results_default [OF this]
  have "vqbit_quantum_results 2 [example_result, example_result]
     = \<lparr>vqbit_score = Finite 0.5, energy = Finite (- 300),
        virtue_scores = \<lparr>justice = Finite 0.0, honesty = Finite 0.0,
                         temperance = Finite 0.0, prudence = Finite 0.0\<rparr>,
        vqbit_states = [],
        sr_quantum_analysis =
          \<lparr>qa_coherence = Finite 0.0, entanglement_entropy = Finite 0.0,
           superposition_fidelity = Finite 0.0, quantum_phase_correlation = None\<rparr>\<rparr>"
    by simp
  moreover have "map (\<lambda>d. ma_vqbit_score (d_metal_analysis d))
        (fst (ultra_fast_validate_and_store example_env
          [''ACD'', example_sequence, example_sequence]
          \<lparr>individual_results = [example_result, example_result], mr_batch_size = 3\<rparr>
          (engine_init default_config True)))
      = [Finite 0.7, Finite 0.5]"
    using arg_cong [OF example_run, of "map (fst \<circ> snd \<circ> snd)"] by (simp add: comp_def)
  ultimately show ?thesis by simp
qed

text \<open>
  Claim C1. The claim is that a record whose primary store fails is still written to the
  fallback file store. When the graph database was connected at start-up, the fallback
  directory was never created: a failing \<^verbatim>\<open>store_discovery\<close> is logged, the fallback
  write raises on the missing attribute, the outer handler logs that at debug level, and
  the record is neither stored, nor written to a file, nor returned.
\<close>

theorem primary_failure_loses_record:
  "ultra_fast_validate_and_store
      (example_env\<lparr>store_discovery := (\<lambda>i. Inl (External ''ServiceUnavailable''))\<rparr>)
      [example_sequence]
      \<lparr>individual_results = [example_result], mr_batch_size = 1\<rparr>
      (engine_init default_config True)
   = ([], (engine_init default_config True)
            \<lparr>trace := [Logged ERROR (FailedToStoreDiscovery (External ''ServiceUnavailable'')),
                       Logged DEBUG (ValidationStorageError 0
                         (AttributeError ''discovery_output_dir''))]\<rparr>)"
  by (simp add: ultra_fast_validate_and_store_def process_sequence_def store_with_fallback_def
        save_discovery_to_file_def
        example_env_def engine_init_def default_config_def example_sequence_def
        example_result_def vqbit_quantum_results_def default_score_result_def
        quality_score_def count_in_def pyfloat_gt_def logger_def Let_def)

section \<open>Properties of the scorer\<close>

lemma vqbit_states_from_error:
  "vqbit_states_from rnd n i sequence = Inl e \<Longrightarrow> e = ZeroDivisionError"
  by (induction sequence arbitrary: n i)
     (auto simp add: vqbit_state_for_def Let_def split: sum.splits if_splits prod.splits)

lemma analyse_sequence_error:
  "analyse_sequence rnd n sequence = Inl e \<Longrightarrow> e = ZeroDivisionError"
  by (auto simp add: analyse_sequence_def generate_vqbit_quantum_states_def Let_def
        split: sum.splits if_splits prod.splits dest: vqbit_states_from_error)

lemma analyse_sequence_empty: "analyse_sequence rnd n [] = Inl ZeroDivisionError"
  by (simp add: analyse_sequence_def generate_vqbit_quantum_states_def)

lemma analyse_all_empty_sequence:
  "[] \<in> set sequences \<Longrightarrow> analyse_all rnd n sequences = Inl ZeroDivisionError"
proof (induction sequences arbitrary: n)
  case Nil
  then show ?case by simp
next
  case (Cons s rest)
  show ?case
  proof (cases "analyse_sequence rnd n s")
    case (Inl e)
    then show ?thesis using analyse_sequence_error [OF Inl] by simp
  next
    case (Inr p)
    obtain r n1 where p: "p = (r, n1)" by (cases p)
    from Inr analyse_sequence_empty have "s \<noteq> []" by auto
    with Cons.prems have "[] \<in> set rest" by auto
    from Cons.IH [OF this] Inr p show ?thesis by simp
  qed
qed

text \<open>
  Claim C9. The scorer is not total: an empty sequence yields no vQbit states, the
  superposition fidelity divides by their number, and \<^verbatim>\<open>massive_batch_analysis\<close> raises
  \<^verbatim>\<open>ZeroDivisionError\<close> on every batch that contains an empty sequence, whatever the
  random draws are.
\<close>

theorem empty_sequence_raises_zero_division:
  assumes "[] \<in> set sequences"
  shows "generate_vqbit_quantum_states rnd n [] = Inr ([], n)
         \<and> analyse_sequence rnd n [] = Inl ZeroDivisionError
         \<and> massive_batch_analysis rnd sequences = Inl ZeroDivisionError"
  using assms
  by (simp add: massive_batch_analysis_def simplified_metal_analysis_def
        analyse_all_empty_sequence analyse_sequence_empty generate_vqbit_quantum_states_def)

theorem empty_sequence_raises_zero_division_witness:
  "massive_batch_analysis (\<lambda>n. 1 / 2) [''ACDEFGHIKLMNPQRSTVWY'', []] = Inl ZeroDivisionError"
proof -
  have "[] \<in> set [''ACDEFGHIKLMNPQRSTVWY'', []]" by simp
  from empty_sequence_raises_zero_division [OF this] show ?thesis by simp
qed

section \<open>Properties of the cycle loop\<close>


































end
